theory Spec2Isabelle
  imports Complex_Main "HOL-Library.Log_Nat"
begin

section \<open>Python floats (IEEE 754 binary64)\<close>

text \<open>
  The prices of \<^verbatim>\<open>server.py\<close> are Python floats. A float is modelled by its value:
  a finite double is the rational number it denotes, and the three other values are
  the infinities and NaN. The two zeros \<open>0.0\<close> and \<open>-0.0\<close> compare equal in Python and
  no operation of the program tells them apart, so both are \<open>Fin 0\<close>.
  Every arithmetic result is the exact result rounded to the nearest double, ties to
  the even mantissa, with 53 bits of mantissa, gradual underflow below \<open>2 ^ (- 1022)\<close>
  (the quantum never goes under \<open>2 ^ (- 1074)\<close>) and overflow to an infinity from
  \<open>2 ^ 1024\<close> on.
\<close>

datatype pyfloat = Fin rat | PosInf | NegInf | NaN

definition pow2 :: "int \<Rightarrow> rat" where
  "pow2 e = (if 0 \<le> e then 2 ^ nat e else 1 / 2 ^ nat (- e))"

text \<open>\<open>ilog2 x\<close> is the binary exponent of \<open>x \<noteq> 0\<close>: \<open>2 ^ ilog2 x \<le> \<bar>x\<bar> < 2 ^ (ilog2 x + 1)\<close>.\<close>

definition ilog2 :: "rat \<Rightarrow> int" where
  "ilog2 x = (case quotient_of \<bar>x\<bar> of (a, b) \<Rightarrow>
      let k = bitlen a - bitlen b in if pow2 k \<le> \<bar>x\<bar> then k else k - 1)"

definition round_half_even :: "rat \<Rightarrow> int" where
  "round_half_even s = (let f = \<lfloor>s\<rfloor>; r = s - of_int f in
      if r < 1 / 2 then f else if 1 / 2 < r then f + 1 else if even f then f else f + 1)"

text \<open>The exponent of the unit in the last place of the double nearest to \<open>x\<close>.\<close>

definition quantum :: "rat \<Rightarrow> int" where
  "quantum x = max (ilog2 x - 52) (- 1074)"

definition round_to_double :: "rat \<Rightarrow> rat" where
  "round_to_double x = (if x = 0 then 0 else
      of_int (round_half_even (x / pow2 (quantum x))) * pow2 (quantum x))"

definition rnd :: "rat \<Rightarrow> pyfloat" where
  "rnd x = (let y = round_to_double x in
      if 2 ^ 1024 \<le> y then PosInf else if y \<le> - (2 ^ 1024) then NegInf else Fin y)"

text \<open>A decimal literal of the source (\<^verbatim>\<open>5.0\<close>, \<^verbatim>\<open>0.30\<close>, \<^verbatim>\<open>0.70\<close>) is the double nearest to it.\<close>

definition float_literal :: "rat \<Rightarrow> pyfloat" where
  "float_literal q = rnd q"

fun fmul :: "pyfloat \<Rightarrow> pyfloat \<Rightarrow> pyfloat" where
  "fmul NaN _ = NaN"
| "fmul _ NaN = NaN"
| "fmul (Fin a) (Fin b) = rnd (a * b)"
| "fmul (Fin a) PosInf = (if a = 0 then NaN else if 0 < a then PosInf else NegInf)"
| "fmul (Fin a) NegInf = (if a = 0 then NaN else if 0 < a then NegInf else PosInf)"
| "fmul PosInf (Fin b) = (if b = 0 then NaN else if 0 < b then PosInf else NegInf)"
| "fmul NegInf (Fin b) = (if b = 0 then NaN else if 0 < b then NegInf else PosInf)"
| "fmul PosInf PosInf = PosInf"
| "fmul PosInf NegInf = NegInf"
| "fmul NegInf PosInf = NegInf"
| "fmul NegInf NegInf = PosInf"

fun fadd :: "pyfloat \<Rightarrow> pyfloat \<Rightarrow> pyfloat" where
  "fadd NaN _ = NaN"
| "fadd _ NaN = NaN"
| "fadd (Fin a) (Fin b) = rnd (a + b)"
| "fadd (Fin a) PosInf = PosInf"
| "fadd (Fin a) NegInf = NegInf"
| "fadd PosInf (Fin b) = PosInf"
| "fadd NegInf (Fin b) = NegInf"
| "fadd PosInf PosInf = PosInf"
| "fadd PosInf NegInf = NaN"
| "fadd NegInf PosInf = NaN"
| "fadd NegInf NegInf = NegInf"

section \<open>Exceptions\<close>

text \<open>
  \<open>HTTPException status detail\<close> is FastAPI's exception; \<open>RequestValidationError\<close> is what
  the framework raises (status 422) when a body does not fit its pydantic model. The
  two arithmetic errors are Python's own and are handled nowhere in the program;
  \<open>OverflowError\<close> is raised by the division of ints and by the BSON encoder.
\<close>

datatype exn =
    HTTPException nat string
  | RequestValidationError string
  | ZeroDivisionError
  | OverflowError

text \<open>
  Python's \<^verbatim>\<open>a / b\<close> on two ints: the quotient correctly rounded to a double;
  it raises rather than return an infinity.
\<close>

definition truediv :: "int \<Rightarrow> int \<Rightarrow> exn + pyfloat" where
  "truediv a b =
     (if b = 0 then Inl ZeroDivisionError
      else case rnd (of_int a / of_int b) of
             Fin y \<Rightarrow> Inr (Fin y)
           | _ \<Rightarrow> Inl OverflowError)"

section \<open>Data model\<close>

text \<open>A datetime is read in whole seconds since the epoch (UTC).\<close>

type_synonym datetime = int

text \<open>A document of \<^verbatim>\<open>db.users\<close>.\<close>

record user_doc =
  u_id :: string
  u_email :: string
  u_full_name :: string
  u_role :: string
  u_password_hash :: string
  u_created_at :: datetime

record UserCreate =
  uc_email :: string
  uc_full_name :: string
  uc_role :: string
  uc_password :: string

record UserResponse =
  ur_email :: string
  ur_full_name :: string
  ur_role :: string
  ur_id :: string
  ur_created_at :: datetime

record UserLogin =
  ul_email :: string
  ul_password :: string

record TherapistRegistration =
  tr_license_number :: string
  tr_specialization :: string
  tr_hourly_rate :: pyfloat
  tr_bio :: string
  tr_years_experience :: int

text \<open>A document of \<^verbatim>\<open>db.therapists\<close>; the response model has the same fields.\<close>

record TherapistProfile =
  tp_id :: string
  tp_user_id :: string
  tp_license_number :: string
  tp_specialization :: string
  tp_hourly_rate :: pyfloat
  tp_bio :: string
  tp_years_experience :: int
  tp_is_available :: bool
  tp_created_at :: datetime

record SessionCreate =
  sc_session_type :: string
  sc_scheduled_date :: "datetime option"
  sc_duration_minutes :: int
  sc_cost :: pyfloat
  sc_therapist_id :: "string option"

text \<open>A document of \<^verbatim>\<open>db.sessions\<close>; the response model has the same fields.\<close>

record SessionResponse =
  s_session_type :: string
  s_scheduled_date :: "datetime option"
  s_duration_minutes :: int
  s_cost :: pyfloat
  s_id :: string
  s_user_id :: string
  s_therapist_id :: "string option"
  s_status :: string
  s_created_at :: datetime

text \<open>
  A document of \<^verbatim>\<open>db.payments\<close>. The two split fields are keys the handler adds
  for therapist sessions only; an absent key is \<open>None\<close>.
\<close>

record PaymentRecord =
  p_id :: string
  p_user_id :: string
  p_session_id :: string
  p_amount :: pyfloat
  p_payment_type :: string
  p_status :: string
  p_platform_fee :: "pyfloat option"
  p_therapist_earnings :: "pyfloat option"
  p_created_at :: datetime

record ChatMessage =
  cm_session_id :: string
  cm_message :: string

record ChatResponse =
  cr_response :: string
  cr_session_id :: string

text \<open>A document of \<^verbatim>\<open>db.chat_history\<close>.\<close>

record chat_doc =
  ch_id :: string
  ch_session_id :: string
  ch_user_id :: string
  ch_user_message :: string
  ch_ai_response :: string
  ch_timestamp :: datetime

text \<open>
  The database: each collection is the list of its documents in insertion order.
  \<^verbatim>\<open>insert_one\<close> appends; \<^verbatim>\<open>find_one\<close> returns the first document that matches
  the filter; \<^verbatim>\<open>find(...).to_list(n)\<close> returns the first \<open>n\<close> matching documents.

  A document is encoded as BSON before it is sent, and the driver's \<^verbatim>\<open>insert_one\<close>
  raises \<^verbatim>\<open>OverflowError\<close>, with nothing written, for a document that holds
  \<^item> a Python int of more than 8 bytes (the sessions have \<^verbatim>\<open>duration_minutes\<close>, the
    therapists \<^verbatim>\<open>years_experience\<close>), or
  \<^item> a datetime that is, in UTC, outside the years 1 to 9999. A clock reading is never
    one; the \<^verbatim>\<open>scheduled_date\<close> of a request can be, when it carries an offset.

  A string stands for UTF-8 text and a float is stored as it is, infinities and NaN
  included. The store's bound on the size of a document (16 MB) is outside the model.
\<close>

record database =
  users :: "user_doc list"
  therapists :: "TherapistProfile list"
  sessions :: "SessionResponse list"
  payments :: "PaymentRecord list"
  chat_history :: "chat_doc list"

fun find_one :: "('a \<Rightarrow> bool) \<Rightarrow> 'a list \<Rightarrow> 'a option" where
  "find_one P [] = None"
| "find_one P (x # xs) = (if P x then Some x else find_one P xs)"

definition find_to_list :: "('a \<Rightarrow> bool) \<Rightarrow> nat \<Rightarrow> 'a list \<Rightarrow> 'a list" where
  "find_to_list P n xs = take n (filter P xs)"

definition bson_int :: "int \<Rightarrow> bool" where
  "bson_int i = (- (2 ^ 63) \<le> i \<and> i < 2 ^ 63)"

definition bson_datetime :: "datetime option \<Rightarrow> bool" where
  "bson_datetime v =
     (case v of None \<Rightarrow> True | Some t \<Rightarrow> - 62135596800 \<le> t \<and> t < 253402300800)"

definition sessions_insert_one :: "database \<Rightarrow> SessionResponse \<Rightarrow> exn + database" where
  "sessions_insert_one db doc =
     (if bson_datetime (s_scheduled_date doc) \<and> bson_int (s_duration_minutes doc)
      then Inr (db\<lparr>sessions := sessions db @ [doc]\<rparr>)
      else Inl OverflowError)"

definition therapists_insert_one :: "database \<Rightarrow> TherapistProfile \<Rightarrow> exn + database" where
  "therapists_insert_one db doc =
     (if bson_int (tp_years_experience doc)
      then Inr (db\<lparr>therapists := therapists db @ [doc]\<rparr>)
      else Inl OverflowError)"

section \<open>Credentials and tokens\<close>

text \<open>
  \<^verbatim>\<open>passlib\<close>'s context is a collaborator of the program: hashing takes a salt the
  library draws, verification is a predicate on a password and a hash.
\<close>

record CryptContext =
  cc_hash :: "string \<Rightarrow> string \<Rightarrow> string"
  cc_verify :: "string \<Rightarrow> string \<Rightarrow> bool"

definition hash_password :: "CryptContext \<Rightarrow> string \<Rightarrow> string \<Rightarrow> string" where
  "hash_password pwd_context salt password = cc_hash pwd_context salt password"

definition verify_password :: "CryptContext \<Rightarrow> string \<Rightarrow> string \<Rightarrow> bool" where
  "verify_password pwd_context plain_password hashed_password =
     cc_verify pwd_context plain_password hashed_password"

definition JWT_SECRET :: string where
  "JWT_SECRET = ''thrapy_secret_key_2024''"

definition JWT_ALGORITHM :: string where
  "JWT_ALGORITHM = ''HS256''"

definition JWT_EXPIRATION_TIME_MINUTES :: int where
  "JWT_EXPIRATION_TIME_MINUTES = 60 * 24 * 7"

text \<open>
  A JWT payload is a dict from claim names to values. The \<^verbatim>\<open>jwt\<close> library is modelled
  by its contract, with the signature symbolic: a well-formed token carries the key and
  the algorithm it was signed with and its payload, and any other bearer string is
  \<open>Malformed\<close>. \<^verbatim>\<open>jwt.decode\<close> refuses a malformed token, an algorithm outside the
  accepted list, a signature under another key, and a token whose \<^verbatim>\<open>exp\<close> claim is
  not in the future; all four are \<^verbatim>\<open>PyJWTError\<close>s. The contract is that of the
  payloads this program issues, a string \<^verbatim>\<open>sub\<close> and an integer \<^verbatim>\<open>exp\<close>; what the
  library checks beyond them (the type of \<^verbatim>\<open>sub\<close>, \<^verbatim>\<open>aud\<close>, \<^verbatim>\<open>nbf\<close>, \<^verbatim>\<open>iat\<close>, an
  \<^verbatim>\<open>exp\<close> written as a string of digits) is not part of it.
\<close>

datatype claim_value = StrV string | NumV int

type_synonym payload = "(string \<times> claim_value) list"

datatype token = Signed string string payload | Malformed string

datatype PyJWTError =
    DecodeError
  | InvalidAlgorithmError
  | InvalidSignatureError
  | ExpiredSignatureError

fun dict_update :: "payload \<Rightarrow> string \<Rightarrow> claim_value \<Rightarrow> payload" where
  "dict_update [] k v = [(k, v)]"
| "dict_update ((k', v') # d) k v =
     (if k' = k then (k, v) # d else (k', v') # dict_update d k v)"

definition dict_get :: "payload \<Rightarrow> string \<Rightarrow> claim_value option" where
  "dict_get d k = map_of d k"

definition jwt_encode :: "payload \<Rightarrow> string \<Rightarrow> string \<Rightarrow> token" where
  "jwt_encode to_encode key algorithm = Signed key algorithm to_encode"

definition jwt_decode :: "token \<Rightarrow> string \<Rightarrow> string list \<Rightarrow> datetime \<Rightarrow> PyJWTError + payload" where
  "jwt_decode credentials key algorithms now =
     (case credentials of
        Malformed _ \<Rightarrow> Inl DecodeError
      | Signed k alg p \<Rightarrow>
          if alg \<notin> set algorithms then Inl InvalidAlgorithmError
          else if k \<noteq> key then Inl InvalidSignatureError
          else (case dict_get p ''exp'' of
                  None \<Rightarrow> Inr p
                | Some (StrV _) \<Rightarrow> Inl DecodeError
                | Some (NumV e) \<Rightarrow> if e \<le> now then Inl ExpiredSignatureError else Inr p))"

definition create_access_token :: "payload \<Rightarrow> datetime \<Rightarrow> token" where
  "create_access_token data now =
     (let expire = now + 60 * JWT_EXPIRATION_TIME_MINUTES;
          to_encode = dict_update data ''exp'' (NumV expire)
      in jwt_encode to_encode JWT_SECRET JWT_ALGORITHM)"

definition UserResponse_of :: "user_doc \<Rightarrow> UserResponse" where
  "UserResponse_of user =
     \<lparr> ur_email = u_email user, ur_full_name = u_full_name user, ur_role = u_role user,
       ur_id = u_id user, ur_created_at = u_created_at user \<rparr>"

definition get_current_user :: "database \<Rightarrow> token \<Rightarrow> datetime \<Rightarrow> exn + UserResponse" where
  "get_current_user db credentials now =
     (case jwt_decode credentials JWT_SECRET [JWT_ALGORITHM] now of
        Inl _ \<Rightarrow> Inl (HTTPException 401 ''Invalid token'')
      | Inr payload \<Rightarrow>
          (case dict_get payload ''sub'' of
             None \<Rightarrow> Inl (HTTPException 401 ''Invalid token'')
           | Some user_id \<Rightarrow>
               (case find_one (\<lambda>u. StrV (u_id u) = user_id) (users db) of
                  None \<Rightarrow> Inl (HTTPException 401 ''User not found'')
                | Some user \<Rightarrow> Inr (UserResponse_of user))))"

section \<open>Authentication routes\<close>

record TokenResponse =
  access_token :: token
  token_type :: string
  user :: UserResponse

text \<open>What a call of \<^verbatim>\<open>register\<close> draws from outside: the uuid, the salt, the clock.\<close>

record register_env =
  reg_uuid :: string
  reg_salt :: string
  reg_now :: datetime

definition register ::
  "database \<Rightarrow> CryptContext \<Rightarrow> UserCreate \<Rightarrow> register_env \<Rightarrow> (exn + TokenResponse) \<times> database" where
  "register db pwd_context user_in env =
     (case find_one (\<lambda>u. u_email u = uc_email user_in) (users db) of
        Some existing_user \<Rightarrow> (Inl (HTTPException 400 ''Email already registered''), db)
      | None \<Rightarrow>
          let user_id = reg_uuid env;
              hashed_password = hash_password pwd_context (reg_salt env) (uc_password user_in);
              user_doc = \<lparr> u_id = user_id, u_email = uc_email user_in,
                           u_full_name = uc_full_name user_in, u_role = uc_role user_in,
                           u_password_hash = hashed_password, u_created_at = reg_now env \<rparr>;
              db' = db\<lparr>users := users db @ [user_doc]\<rparr>;
              token = create_access_token [(''sub'', StrV user_id)] (reg_now env)
          in (Inr \<lparr> access_token = token, token_type = ''bearer'',
                    user = UserResponse_of user_doc \<rparr>, db'))"

definition login ::
  "database \<Rightarrow> CryptContext \<Rightarrow> UserLogin \<Rightarrow> datetime \<Rightarrow> exn + TokenResponse" where
  "login db pwd_context user_login now =
     (case find_one (\<lambda>u. u_email u = ul_email user_login) (users db) of
        None \<Rightarrow> Inl (HTTPException 401 ''Invalid credentials'')
      | Some user_rec \<Rightarrow>
          if \<not> verify_password pwd_context (ul_password user_login) (u_password_hash user_rec)
          then Inl (HTTPException 401 ''Invalid credentials'')
          else Inr \<lparr> access_token = create_access_token [(''sub'', StrV (u_id user_rec))] now,
                     token_type = ''bearer'', user = UserResponse_of user_rec \<rparr>)"

section \<open>Therapist routes\<close>

record therapist_env =
  th_uuid :: string
  th_now :: datetime

definition register_therapist ::
  "database \<Rightarrow> TherapistRegistration \<Rightarrow> UserResponse \<Rightarrow> therapist_env
     \<Rightarrow> (exn + TherapistProfile) \<times> database" where
  "register_therapist db therapist_data current_user env =
     (if ur_role current_user \<noteq> ''therapist''
      then (Inl (HTTPException 403 ''Only therapists can register as therapists''), db)
      else case find_one (\<lambda>t. tp_user_id t = ur_id current_user) (therapists db) of
             Some existing_therapist \<Rightarrow>
               (Inl (HTTPException 400 ''Therapist profile already exists''), db)
           | None \<Rightarrow>
               let therapist_doc =
                     \<lparr> tp_id = th_uuid env, tp_user_id = ur_id current_user,
                       tp_license_number = tr_license_number therapist_data,
                       tp_specialization = tr_specialization therapist_data,
                       tp_hourly_rate = tr_hourly_rate therapist_data,
                       tp_bio = tr_bio therapist_data,
                       tp_years_experience = tr_years_experience therapist_data,
                       tp_is_available = True, tp_created_at = th_now env \<rparr>
               in case therapists_insert_one db therapist_doc of
                    Inl e \<Rightarrow> (Inl e, db)
                  | Inr db' \<Rightarrow> (Inr therapist_doc, db'))"

definition get_therapists :: "database \<Rightarrow> TherapistProfile list" where
  "get_therapists db = find_to_list (\<lambda>t. tp_is_available t = True) 100 (therapists db)"

section \<open>Session routes\<close>

text \<open>
  The body of \<^verbatim>\<open>/sessions/create\<close> before validation: each key is present or not.
  The model \<^verbatim>\<open>SessionCreate\<close> gives \<^verbatim>\<open>scheduled_date\<close>, \<^verbatim>\<open>duration_minutes\<close> and
  \<^verbatim>\<open>therapist_id\<close> a default and none to \<^verbatim>\<open>session_type\<close> and \<^verbatim>\<open>cost\<close>, which are
  therefore required; no field carries a bound.
\<close>

record SessionCreate_body =
  b_session_type :: "string option"
  b_scheduled_date :: "datetime option"
  b_duration_minutes :: "int option"
  b_cost :: "pyfloat option"
  b_therapist_id :: "string option"

definition validate_SessionCreate :: "SessionCreate_body \<Rightarrow> exn + SessionCreate" where
  "validate_SessionCreate body =
     (case b_session_type body of
        None \<Rightarrow> Inl (RequestValidationError ''session_type'')
      | Some st \<Rightarrow>
          (case b_cost body of
             None \<Rightarrow> Inl (RequestValidationError ''cost'')
           | Some c \<Rightarrow>
               Inr \<lparr> sc_session_type = st, sc_scheduled_date = b_scheduled_date body,
                     sc_duration_minutes = (case b_duration_minutes body of None \<Rightarrow> 60 | Some d \<Rightarrow> d),
                     sc_cost = c, sc_therapist_id = b_therapist_id body \<rparr>))"

text \<open>What a call of \<^verbatim>\<open>create_session\<close> draws from outside: two uuids, two clock readings.\<close>

record session_env =
  se_session_uuid :: string
  se_session_now :: datetime
  se_payment_uuid :: string
  se_payment_now :: datetime

text \<open>Python's truth value of an \<^verbatim>\<open>Optional[str]\<close>: \<^verbatim>\<open>None\<close> and the empty string are false.\<close>

definition truthy :: "string option \<Rightarrow> bool" where
  "truthy v = (case v of None \<Rightarrow> False | Some s \<Rightarrow> s \<noteq> [])"

text \<open>The block "Calculate cost based on session type" of \<^verbatim>\<open>create_session\<close>.\<close>

definition session_cost :: "database \<Rightarrow> SessionCreate \<Rightarrow> exn + pyfloat" where
  "session_cost db session_data =
     (if sc_session_type session_data = ''ai'' then
        (case truediv (sc_duration_minutes session_data) 60 of
           Inl e \<Rightarrow> Inl e
         | Inr q \<Rightarrow> Inr (fmul (float_literal 5) q))
      else if sc_session_type session_data = ''therapist'' then
        (if \<not> truthy (sc_therapist_id session_data)
         then Inl (HTTPException 400 ''Therapist ID required for therapist sessions'')
         else case find_one (\<lambda>t. Some (tp_id t) = sc_therapist_id session_data) (therapists db) of
                None \<Rightarrow> Inl (HTTPException 404 ''Therapist not found'')
              | Some therapist \<Rightarrow>
                  (case truediv (sc_duration_minutes session_data) 60 of
                     Inl e \<Rightarrow> Inl e
                   | Inr q \<Rightarrow> Inr (fmul (tp_hourly_rate therapist) q)))
      else Inl (HTTPException 400 ''Invalid session type''))"

definition create_session ::
  "database \<Rightarrow> SessionCreate \<Rightarrow> UserResponse \<Rightarrow> session_env
     \<Rightarrow> (exn + SessionResponse) \<times> database" where
  "create_session db session_data current_user env =
     (let session_id = se_session_uuid env in
      case session_cost db session_data of
        Inl e \<Rightarrow> (Inl e, db)
      | Inr cost \<Rightarrow>
          let session_doc =
                \<lparr> s_session_type = sc_session_type session_data,
                  s_scheduled_date = sc_scheduled_date session_data,
                  s_duration_minutes = sc_duration_minutes session_data,
                  s_cost = cost,
                  s_id = session_id,
                  s_user_id = ur_id current_user,
                  s_therapist_id = sc_therapist_id session_data,
                  s_status = ''scheduled'',
                  s_created_at = se_session_now env \<rparr>
          in case sessions_insert_one db session_doc of
               Inl e \<Rightarrow> (Inl e, db)
             | Inr db1 \<Rightarrow>
                 let payment_doc =
                       \<lparr> p_id = se_payment_uuid env,
                         p_user_id = ur_id current_user,
                         p_session_id = session_id,
                         p_amount = cost,
                         p_payment_type = sc_session_type session_data @ ''_session'',
                         p_status = ''completed'',
                         p_platform_fee = None,
                         p_therapist_earnings = None,
                         p_created_at = se_payment_now env \<rparr>;
                     payment_doc' =
                       (if sc_session_type session_data = ''therapist''
                        then payment_doc
                               \<lparr> p_platform_fee := Some (fmul cost (float_literal (3 / 10))),
                                 p_therapist_earnings := Some (fmul cost (float_literal (7 / 10))) \<rparr>
                        else payment_doc);
                     db2 = db1\<lparr>payments := payments db1 @ [payment_doc']\<rparr>
                 in (Inr session_doc, db2))"

text \<open>The route: the body is validated against the model, then the handler runs.\<close>

definition sessions_create ::
  "database \<Rightarrow> SessionCreate_body \<Rightarrow> UserResponse \<Rightarrow> session_env
     \<Rightarrow> (exn + SessionResponse) \<times> database" where
  "sessions_create db body current_user env =
     (case validate_SessionCreate body of
        Inl e \<Rightarrow> (Inl e, db)
      | Inr session_data \<Rightarrow> create_session db session_data current_user env)"

section \<open>AI chat route\<close>

text \<open>
  The chat provider is a collaborator: given the conversation key and the message it
  returns the reply, or fails with an error text.
\<close>

record chat_env =
  ce_send_message :: "string \<Rightarrow> string \<Rightarrow> string + string"
  ce_uuid :: string
  ce_now :: datetime

definition ai_chat ::
  "database \<Rightarrow> ChatMessage \<Rightarrow> UserResponse \<Rightarrow> chat_env \<Rightarrow> (exn + ChatResponse) \<times> database" where
  "ai_chat db chat_message current_user env =
     (case find_one (\<lambda>s. s_id s = cm_session_id chat_message
                          \<and> s_user_id s = ur_id current_user
                          \<and> s_session_type s = ''ai'') (sessions db) of
        None \<Rightarrow> (Inl (HTTPException 404 ''AI session not found''), db)
      | Some session_rec \<Rightarrow>
          (case ce_send_message env (cm_session_id chat_message) (cm_message chat_message) of
             Inl e \<Rightarrow> (Inl (HTTPException 500 (''AI chat error: '' @ e)), db)
           | Inr response \<Rightarrow>
               let message_doc =
                     \<lparr> ch_id = ce_uuid env, ch_session_id = cm_session_id chat_message,
                       ch_user_id = ur_id current_user,
                       ch_user_message = cm_message chat_message,
                       ch_ai_response = response, ch_timestamp = ce_now env \<rparr>
               in (Inr \<lparr> cr_response = response, cr_session_id = cm_session_id chat_message \<rparr>,
                   db\<lparr>chat_history := chat_history db @ [message_doc]\<rparr>)))"

section \<open>A small database for concrete runs\<close>

text \<open>
  Two users, three therapist profiles (one of them unavailable) and three sessions:
  an AI session and a therapist session of Alice, and an AI session of Bob.
\<close>

definition ex_pwd_context :: CryptContext where
  "ex_pwd_context =
     \<lparr> cc_hash = (\<lambda>salt password. salt @ ''$'' @ password),
       cc_verify = (\<lambda>password hashed. hashed = ''salt$'' @ password) \<rparr>"

definition ex_alice :: user_doc where
  "ex_alice = \<lparr> u_id = ''u-alice'', u_email = ''alice@example.com'', u_full_name = ''Alice'',
                u_role = ''client'', u_password_hash = ''salt$wonderland'', u_created_at = 1000 \<rparr>"

definition ex_bob :: user_doc where
  "ex_bob = \<lparr> u_id = ''u-bob'', u_email = ''bob@example.com'', u_full_name = ''Bob'',
              u_role = ''therapist'', u_password_hash = ''salt$builder'', u_created_at = 1001 \<rparr>"

definition ex_therapist_80 :: TherapistProfile where
  "ex_therapist_80 =
     \<lparr> tp_id = ''t-80'', tp_user_id = ''u-bob'', tp_license_number = ''L1'',
       tp_specialization = ''CBT'', tp_hourly_rate = Fin 80, tp_bio = ''bio'',
       tp_years_experience = 7, tp_is_available = True, tp_created_at = 1002 \<rparr>"

definition ex_therapist_4 :: TherapistProfile where
  "ex_therapist_4 =
     \<lparr> tp_id = ''t-4'', tp_user_id = ''u-dan'', tp_license_number = ''L2'',
       tp_specialization = ''CBT'', tp_hourly_rate = Fin 4, tp_bio = ''bio'',
       tp_years_experience = 1, tp_is_available = True, tp_created_at = 1003 \<rparr>"

definition ex_therapist_off :: TherapistProfile where
  "ex_therapist_off =
     \<lparr> tp_id = ''t-off'', tp_user_id = ''u-eve'', tp_license_number = ''L3'',
       tp_specialization = ''CBT'', tp_hourly_rate = Fin 50, tp_bio = ''bio'',
       tp_years_experience = 3, tp_is_available = False, tp_created_at = 1004 \<rparr>"

definition ex_session_alice_ai :: SessionResponse where
  "ex_session_alice_ai =
     \<lparr> s_session_type = ''ai'', s_scheduled_date = None, s_duration_minutes = 60,
       s_cost = Fin 5, s_id = ''s-1'', s_user_id = ''u-alice'', s_therapist_id = None,
       s_status = ''scheduled'', s_created_at = 1005 \<rparr>"

definition ex_session_alice_therapist :: SessionResponse where
  "ex_session_alice_therapist =
     \<lparr> s_session_type = ''therapist'', s_scheduled_date = None, s_duration_minutes = 60,
       s_cost = Fin 80, s_id = ''s-2'', s_user_id = ''u-alice'', s_therapist_id = Some ''t-80'',
       s_status = ''scheduled'', s_created_at = 1006 \<rparr>"

definition ex_session_bob_ai :: SessionResponse where
  "ex_session_bob_ai =
     \<lparr> s_session_type = ''ai'', s_scheduled_date = None, s_duration_minutes = 60,
       s_cost = Fin 5, s_id = ''s-3'', s_user_id = ''u-bob'', s_therapist_id = None,
       s_status = ''scheduled'', s_created_at = 1007 \<rparr>"

definition ex_db :: database where
  "ex_db =
     \<lparr> users = [ex_alice, ex_bob],
       therapists = [ex_therapist_80, ex_therapist_4, ex_therapist_off],
       sessions = [ex_session_alice_ai, ex_session_alice_therapist, ex_session_bob_ai],
       payments = [],
       chat_history = [] \<rparr>"

definition ex_session_env :: session_env where
  "ex_session_env =
     \<lparr> se_session_uuid = ''s-new'', se_session_now = 2000,
       se_payment_uuid = ''p-new'', se_payment_now = 2001 \<rparr>"

definition ex_chat_env :: chat_env where
  "ex_chat_env =
     \<lparr> ce_send_message = (\<lambda>session_id text. Inr ''I hear you.''),
       ce_uuid = ''c-new'', ce_now = 2002 \<rparr>"

section \<open>Rounding to a double\<close>

lemma pow2_powi: "pow2 e = 2 powi e"
  by (simp add: pow2_def power_int_def power_one_over inverse_eq_divide)

lemma pow2_pos: "0 < pow2 e"
  by (simp add: pow2_powi)

lemma pow2_add: "pow2 (a + b) = pow2 a * pow2 b"
  by (simp add: pow2_powi power_int_add)

lemma pow2_mono: "a \<le> b \<Longrightarrow> pow2 a \<le> pow2 b"
  by (simp add: pow2_powi power_int_increasing)

lemma pow2_less_iff: "pow2 a < pow2 b \<longleftrightarrow> a < b"
proof
  assume l: "pow2 a < pow2 b"
  show "a < b"
  proof (rule ccontr)
    assume "\<not> a < b"
    then have "pow2 b \<le> pow2 a" by (simp add: pow2_mono)
    with l show False by simp
  qed
next
  assume "a < b"
  then show "pow2 a < pow2 b"
    by (simp add: pow2_powi power_int_strict_increasing)
qed

lemma pow2_nat: "0 \<le> e \<Longrightarrow> pow2 e = 2 ^ nat e"
  by (simp add: pow2_def)

lemma quotient_of_abs_pos:
  assumes "x \<noteq> 0" and "quotient_of \<bar>x\<bar> = (a, b)"
  shows "0 < a" and "0 < b" and "\<bar>x\<bar> = of_int a / of_int b"
proof -
  show b: "0 < b" using assms(2) by (rule quotient_of_denom_pos)
  show e: "\<bar>x\<bar> = of_int a / of_int b" using assms(2) by (rule quotient_of_div)
  have "0 < \<bar>x\<bar>" using assms(1) by simp
  with e b show "0 < a" by (simp add: zero_less_divide_iff)
qed

lemma bitlen_pow2_bounds:
  assumes "0 < a"
  shows "pow2 (bitlen a - 1) \<le> of_int a" and "of_int a < pow2 (bitlen a)"
proof -
  from assms have b1: "1 \<le> bitlen a" by (auto simp: bitlen_alt_def)
  from bitlen_bounds [OF assms]
  have l: "2 ^ nat (bitlen a - 1) \<le> a" and u: "a < 2 ^ nat (bitlen a)" by simp_all
  have "(of_int (2 ^ nat (bitlen a - 1)) :: rat) \<le> of_int a" using l by (simp only: of_int_le_iff)
  then show "pow2 (bitlen a - 1) \<le> of_int a" using b1 by (simp add: pow2_nat)
  have "(of_int a :: rat) < of_int (2 ^ nat (bitlen a))" using u by (simp only: of_int_less_iff)
  then show "of_int a < pow2 (bitlen a)" using b1 by (simp add: pow2_nat)
qed

lemma ilog2_bounds:
  assumes "x \<noteq> 0"
  shows "pow2 (ilog2 x) \<le> \<bar>x\<bar>" and "\<bar>x\<bar> < pow2 (ilog2 x + 1)"
proof -
  obtain a b where q: "quotient_of \<bar>x\<bar> = (a, b)" by (cases "quotient_of \<bar>x\<bar>")
  note ab = quotient_of_abs_pos [OF assms q]
  define k where "k = bitlen a - bitlen b"
  have il: "ilog2 x = (if pow2 k \<le> \<bar>x\<bar> then k else k - 1)"
    by (simp add: ilog2_def q k_def Let_def)
  have bpos: "(0::rat) < of_int b" using ab(2) by simp
  have up: "\<bar>x\<bar> < pow2 (k + 1)"
  proof -
    have "of_int a < pow2 (bitlen a)" using bitlen_pow2_bounds(2) [OF ab(1)] .
    also have "pow2 (bitlen a) = pow2 (k + 1) * pow2 (bitlen b - 1)"
      by (simp add: k_def pow2_add [symmetric])
    also have "\<dots> \<le> pow2 (k + 1) * of_int b"
      using bitlen_pow2_bounds(1) [OF ab(2)] pow2_pos [of "k + 1"]
      by (simp add: mult_left_mono)
    finally show ?thesis using bpos by (simp add: ab(3) pos_divide_less_eq)
  qed
  have lo: "pow2 (k - 1) \<le> \<bar>x\<bar>"
  proof -
    have "pow2 (k - 1) * of_int b \<le> pow2 (k - 1) * pow2 (bitlen b)"
      using bitlen_pow2_bounds(2) [OF ab(2)] pow2_pos [of "k - 1"]
      by (simp add: mult_left_mono)
    also have "\<dots> = pow2 (bitlen a - 1)"
      by (simp add: k_def pow2_add [symmetric])
    also have "\<dots> \<le> of_int a" using bitlen_pow2_bounds(1) [OF ab(1)] .
    finally show ?thesis using bpos by (simp add: ab(3) pos_le_divide_eq)
  qed
  show "pow2 (ilog2 x) \<le> \<bar>x\<bar>" using lo by (simp add: il)
  show "\<bar>x\<bar> < pow2 (ilog2 x + 1)" using up by (auto simp: il)
qed

lemma round_half_even_error: "\<bar>of_int (round_half_even s) - s\<bar> \<le> 1 / 2"
proof -
  have "of_int \<lfloor>s\<rfloor> \<le> s" "s < of_int \<lfloor>s\<rfloor> + 1" by linarith+
  then show ?thesis
    by (auto simp: round_half_even_def Let_def)
qed

lemma round_to_double_error:
  "\<bar>round_to_double x - x\<bar> \<le> pow2 (quantum x) / 2"
proof (cases "x = 0")
  case True
  then show ?thesis using pow2_pos [of "quantum x"] by (simp add: round_to_double_def)
next
  case False
  define q where "q = pow2 (quantum x)"
  have qpos: "0 < q" by (simp add: q_def pow2_pos)
  define m where "m = round_half_even (x / q)"
  have "round_to_double x - x = (of_int m - x / q) * q"
    using False qpos by (simp add: round_to_double_def q_def m_def field_simps)
  then have "\<bar>round_to_double x - x\<bar> = \<bar>of_int m - x / q\<bar> * q"
    using qpos by (simp add: abs_mult)
  also have "\<dots> \<le> (1 / 2) * q"
    using round_half_even_error [of "x / q"] qpos
    by (intro mult_right_mono) (simp_all add: m_def)
  finally show ?thesis by (simp add: q_def)
qed

lemma quantum_normal:
  assumes "1 / 2 ^ 1022 \<le> \<bar>x\<bar>"
  shows "quantum x = ilog2 x - 52"
proof -
  have x0: "x \<noteq> 0" using assms by auto
  have "pow2 (- 1022) \<le> \<bar>x\<bar>" using assms by (simp add: pow2_def)
  also have "\<bar>x\<bar> < pow2 (ilog2 x + 1)" using ilog2_bounds(2) [OF x0] .
  finally have "- 1022 < ilog2 x + 1" by (simp add: pow2_less_iff)
  then show ?thesis by (simp add: quantum_def)
qed

lemma round_to_double_rel_error:
  assumes "1 / 2 ^ 1022 \<le> \<bar>x\<bar>"
  shows "\<bar>round_to_double x - x\<bar> \<le> \<bar>x\<bar> / 2 ^ 53"
proof -
  have x0: "x \<noteq> 0" using assms by auto
  have "pow2 (quantum x) = pow2 (ilog2 x) * pow2 (- 52)"
    by (simp add: quantum_normal [OF assms] pow2_add [symmetric])
  also have "\<dots> \<le> \<bar>x\<bar> * pow2 (- 52)"
    using ilog2_bounds(1) [OF x0] pow2_pos [of "- 52"] by (simp add: mult_right_mono)
  finally have "pow2 (quantum x) / 2 \<le> \<bar>x\<bar> * pow2 (- 52) / 2" by simp
  also have "\<dots> = \<bar>x\<bar> / 2 ^ 53" by (simp add: pow2_def)
  finally show ?thesis using round_to_double_error [of x] by linarith
qed

lemma rnd_Fin: "\<bar>round_to_double x\<bar> < 2 ^ 1024 \<Longrightarrow> rnd x = Fin (round_to_double x)"
  by (auto simp: rnd_def Let_def)




lemma float_literal_5: "float_literal 5 = Fin 5"
  by code_simp

lemma float_literal_030: "float_literal (3 / 10) = Fin (5404319552844595 / 18014398509481984)"
  by code_simp

lemma float_literal_070: "float_literal (7 / 10) = Fin (3152519739159347 / 4503599627370496)"
  by code_simp


lemma truediv_0_60: "truediv 0 60 = Inr (Fin 0)"
  by code_simp

lemma truediv_60_total:
  assumes "\<bar>d\<bar> \<le> 2 ^ 1023"
  shows "\<exists>y. truediv d 60 = Inr (Fin y)"
proof (cases "d = 0")
  case True
  then show ?thesis by (simp add: truediv_0_60)
next
  case False
  define x :: rat where "x = of_int d / of_int 60"
  have ax: "\<bar>x\<bar> = of_int \<bar>d\<bar> / 60" by (simp add: x_def)
  have "1 \<le> \<bar>d\<bar>" using False by simp
  then have "(1::rat) \<le> of_int \<bar>d\<bar>" by (simp only: of_int_1_le_iff)
  then have lo: "1 / 60 \<le> \<bar>x\<bar>" unfolding ax by (simp add: divide_right_mono)
  have "1 / 2 ^ 1022 \<le> (1 / 60 :: rat)" by simp
  with lo have n: "1 / 2 ^ 1022 \<le> \<bar>x\<bar>" by linarith
  have "(of_int \<bar>d\<bar> :: rat) \<le> of_int (2 ^ 1023)" using assms by (simp only: of_int_le_iff)
  then have hi: "\<bar>x\<bar> \<le> 2 ^ 1023 / 60" unfolding ax by (simp add: divide_right_mono)
  have e: "\<bar>round_to_double x - x\<bar> \<le> \<bar>x\<bar> / 2 ^ 53"
    using n by (rule round_to_double_rel_error)
  have "\<bar>round_to_double x\<bar> \<le> \<bar>x\<bar> + \<bar>x\<bar> / 2 ^ 53" using e by linarith
  also have "\<dots> \<le> 2 ^ 1023 / 60 + (2 ^ 1023 / 60) / 2 ^ 53"
    using hi by (intro add_mono divide_right_mono) simp_all
  also have "\<dots> < (2 ^ 1024 :: rat)" by simp
  finally have "rnd x = Fin (round_to_double x)" by (rule rnd_Fin)
  then show ?thesis by (simp add: truediv_def x_def)
qed


lemma bson_int_truediv:
  assumes "bson_int d"
  shows "\<exists>y. truediv d 60 = Inr (Fin y)"
proof -
  have "\<bar>d\<bar> \<le> 2 ^ 63" using assms by (simp add: bson_int_def abs_le_iff)
  also have "(2::int) ^ 63 \<le> 2 ^ 1023" by (rule power_increasing) simp_all
  finally show ?thesis by (rule truediv_60_total)
qed



section \<open>The arithmetic of the concrete runs\<close>

lemma truediv_30_60: "truediv 30 60 = Inr (Fin (1 / 2))"
  by code_simp


lemma truediv_90_60: "truediv 90 60 = Inr (Fin (3 / 2))"
  by code_simp

lemma truediv_m30_60: "truediv (- 30) 60 = Inr (Fin (- (1 / 2)))"
  by code_simp



lemma fmul_5_half: "fmul (Fin 5) (Fin (1 / 2)) = Fin (5 / 2)"
  by code_simp


lemma fmul_5_0: "fmul (Fin 5) (Fin 0) = Fin 0"
  by code_simp

lemma fmul_5_mhalf: "fmul (Fin 5) (Fin (- (1 / 2))) = Fin (- (5 / 2))"
  by code_simp





lemma fmul_4_3half: "fmul (Fin 4) (Fin (3 / 2)) = Fin 6"
  by code_simp

lemma fmul_6_030:
  "fmul (Fin 6) (Fin (5404319552844595 / 18014398509481984)) = Fin (2026619832316723 / 1125899906842624)"
  by code_simp

lemma fmul_6_070:
  "fmul (Fin 6) (Fin (3152519739159347 / 4503599627370496)) = Fin (1182194902184755 / 281474976710656)"
  by code_simp

lemma fadd_6_split:
  "fadd (Fin (2026619832316723 / 1125899906842624)) (Fin (1182194902184755 / 281474976710656)) =
     Fin (6755399441055743 / 1125899906842624)"
  by code_simp

section \<open>Lookups, session creation and tokens\<close>

lemma find_one_None_iff: "find_one P xs = None \<longleftrightarrow> (\<forall>x\<in>set xs. \<not> P x)"
  by (induction xs) auto

lemma find_one_SomeD: "find_one P xs = Some x \<Longrightarrow> P x \<and> x \<in> set xs"
  by (induction xs) (auto split: if_splits)

lemma find_one_Some_ex: "(\<exists>x\<in>set xs. P x) \<Longrightarrow> \<exists>y. find_one P xs = Some y \<and> P y"
  by (induction xs) auto

lemma create_session_Inl:
  "session_cost db sd = Inl e \<Longrightarrow> create_session db sd cu env = (Inl e, db)"
  by (simp add: create_session_def)

lemma create_session_overflow:
  assumes "session_cost db sd = Inr cost"
    and "\<not> (bson_datetime (sc_scheduled_date sd) \<and> bson_int (sc_duration_minutes sd))"
  shows "create_session db sd cu env = (Inl OverflowError, db)"
  using assms by (simp add: create_session_def sessions_insert_one_def Let_def)

lemma create_session_Inr:
  assumes "session_cost db sd = Inr cost"
    and "bson_datetime (sc_scheduled_date sd)" and "bson_int (sc_duration_minutes sd)"
  shows "create_session db sd cu env =
     (Inr \<lparr> s_session_type = sc_session_type sd, s_scheduled_date = sc_scheduled_date sd,
             s_duration_minutes = sc_duration_minutes sd, s_cost = cost,
             s_id = se_session_uuid env, s_user_id = ur_id cu,
             s_therapist_id = sc_therapist_id sd, s_status = ''scheduled'',
             s_created_at = se_session_now env \<rparr>,
      db\<lparr> sessions := sessions db @
             [\<lparr> s_session_type = sc_session_type sd, s_scheduled_date = sc_scheduled_date sd,
                s_duration_minutes = sc_duration_minutes sd, s_cost = cost,
                s_id = se_session_uuid env, s_user_id = ur_id cu,
                s_therapist_id = sc_therapist_id sd, s_status = ''scheduled'',
                s_created_at = se_session_now env \<rparr>],
          payments := payments db @
             [\<lparr> p_id = se_payment_uuid env, p_user_id = ur_id cu,
                p_session_id = se_session_uuid env, p_amount = cost,
                p_payment_type = sc_session_type sd @ ''_session'', p_status = ''completed'',
                p_platform_fee =
                  (if sc_session_type sd = ''therapist''
                   then Some (fmul cost (float_literal (3 / 10))) else None),
                p_therapist_earnings =
                  (if sc_session_type sd = ''therapist''
                   then Some (fmul cost (float_literal (7 / 10))) else None),
                p_created_at = se_payment_now env \<rparr>] \<rparr>)"
  by (simp add: create_session_def sessions_insert_one_def Let_def assms)

lemma create_session_accepts:
  assumes "session_cost db sd = Inr cost"
    and "bson_datetime (sc_scheduled_date sd)" and "bson_int (sc_duration_minutes sd)"
  shows "\<exists>s p. create_session db sd cu env =
                 (Inr s, db\<lparr> sessions := sessions db @ [s], payments := payments db @ [p] \<rparr>)
             \<and> s_cost s = cost
             \<and> s_duration_minutes s = sc_duration_minutes sd
             \<and> p_amount p = cost
             \<and> p_session_id p = s_id s
             \<and> p_platform_fee p =
                 (if sc_session_type sd = ''therapist''
                  then Some (fmul cost (float_literal (3 / 10))) else None)
             \<and> p_therapist_earnings p =
                 (if sc_session_type sd = ''therapist''
                  then Some (fmul cost (float_literal (7 / 10))) else None)"
  unfolding create_session_Inr [OF assms]
  by (intro exI conjI) (rule refl, simp_all del: fmul.simps)

lemma create_session_Inr_D:
  assumes "create_session db sd cu env = (Inr s, db')"
  shows "\<exists>cost. session_cost db sd = Inr cost"
    and "bson_datetime (sc_scheduled_date sd)" and "bson_int (sc_duration_minutes sd)"
proof -
  show "\<exists>cost. session_cost db sd = Inr cost"
    using assms create_session_Inl [of db sd _ cu env] by (cases "session_cost db sd") auto
  then obtain cost where c: "session_cost db sd = Inr cost" ..
  have "bson_datetime (sc_scheduled_date sd) \<and> bson_int (sc_duration_minutes sd)"
    using assms create_session_overflow [OF c, of cu env] by auto
  then show "bson_datetime (sc_scheduled_date sd)" and "bson_int (sc_duration_minutes sd)"
    by simp_all
qed

lemma create_session_accepted:
  assumes "create_session db sd cu env = (Inr s, db')"
  shows "\<exists>cost p. session_cost db sd = Inr cost
             \<and> db' = db\<lparr> sessions := sessions db @ [s], payments := payments db @ [p] \<rparr>
             \<and> s_cost s = cost
             \<and> s_duration_minutes s = sc_duration_minutes sd
             \<and> p_amount p = cost
             \<and> p_session_id p = s_id s
             \<and> p_platform_fee p =
                 (if sc_session_type sd = ''therapist''
                  then Some (fmul cost (float_literal (3 / 10))) else None)
             \<and> p_therapist_earnings p =
                 (if sc_session_type sd = ''therapist''
                  then Some (fmul cost (float_literal (7 / 10))) else None)"
proof -
  from create_session_Inr_D [OF assms] obtain cost where
    c: "session_cost db sd = Inr cost"
    and d: "bson_datetime (sc_scheduled_date sd)" and b: "bson_int (sc_duration_minutes sd)"
    by blast
  from create_session_accepts [OF c d b, of cu env] obtain s0 p where
    e: "create_session db sd cu env =
          (Inr s0, db\<lparr> sessions := sessions db @ [s0], payments := payments db @ [p] \<rparr>)"
    and f: "s_cost s0 = cost" "s_duration_minutes s0 = sc_duration_minutes sd"
      "p_amount p = cost" "p_session_id p = s_id s0"
      "p_platform_fee p =
         (if sc_session_type sd = ''therapist''
          then Some (fmul cost (float_literal (3 / 10))) else None)"
      "p_therapist_earnings p =
         (if sc_session_type sd = ''therapist''
          then Some (fmul cost (float_literal (7 / 10))) else None)"
    by blast
  from e assms have "s0 = s"
    and "db' = db\<lparr> sessions := sessions db @ [s0], payments := payments db @ [p] \<rparr>"
    by simp_all
  with c f show ?thesis by blast
qed


lemma session_cost_duration:
  assumes "session_cost db sd = Inr cost" and "bson_int d'"
  shows "\<exists>cost'. session_cost db (sd\<lparr>sc_duration_minutes := d'\<rparr>) = Inr cost'"
proof -
  from bson_int_truediv [OF assms(2)] obtain y where "truediv d' 60 = Inr (Fin y)" ..
  then show ?thesis
    using assms(1)
    by (auto simp: session_cost_def split: if_splits sum.splits option.splits)
qed

lemma session_cost_ai:
  "sc_session_type sd = ''ai'' \<Longrightarrow>
     session_cost db sd =
       (case truediv (sc_duration_minutes sd) 60 of
          Inl e \<Rightarrow> Inl e | Inr q \<Rightarrow> Inr (fmul (float_literal 5) q))"
  by (simp add: session_cost_def)

lemma session_cost_therapist:
  assumes "sc_session_type sd = ''therapist''" and "sc_therapist_id sd = Some tid" and "tid \<noteq> []"
    and "find_one (\<lambda>t. tp_id t = tid) (therapists db) = Some therapist"
  shows "session_cost db sd =
       (case truediv (sc_duration_minutes sd) 60 of
          Inl e \<Rightarrow> Inl e | Inr q \<Rightarrow> Inr (fmul (tp_hourly_rate therapist) q))"
  using assms by (simp add: session_cost_def truthy_def)

lemma get_current_user_fresh_token:
  assumes "now' < now + 604800" and "\<exists>u\<in>set (users db). u_id u = uid"
  shows "\<exists>u. get_current_user db (create_access_token [(''sub'', StrV uid)] now) now' = Inr u
             \<and> ur_id u = uid"
proof -
  from assms(2) obtain y where y: "find_one (\<lambda>u. StrV (u_id u) = StrV uid) (users db) = Some y"
      and "StrV (u_id y) = StrV uid"
    using find_one_Some_ex [of "users db" "\<lambda>u. StrV (u_id u) = StrV uid"] by auto
  then have "ur_id (UserResponse_of y) = uid" by (simp add: UserResponse_of_def)
  moreover have "get_current_user db (create_access_token [(''sub'', StrV uid)] now) now'
      = Inr (UserResponse_of y)"
    using assms(1) y
    by (simp add: get_current_user_def create_access_token_def jwt_encode_def jwt_decode_def
        JWT_EXPIRATION_TIME_MINUTES_def Let_def dict_get_def)
  ultimately show ?thesis by blast
qed

lemma get_current_user_expired_token:
  assumes "now + 604800 \<le> now'"
  shows "get_current_user db (create_access_token [(''sub'', StrV uid)] now) now'
           = Inl (HTTPException 401 ''Invalid token'')"
  using assms
  by (simp add: get_current_user_def create_access_token_def jwt_encode_def jwt_decode_def
      JWT_EXPIRATION_TIME_MINUTES_def Let_def dict_get_def)

section \<open>The claims\<close>






text \<open>
  The equality of C2 is one of floating-point precision, not of bits: ninety minutes
  with a therapist whose rate is \<open>4.0\<close> cost \<open>6.0\<close>; the fee is \<open>1.7999999999999998\<close>,
  the earnings are \<open>4.199999999999999\<close>, and their float sum is \<open>5.999999999999999\<close>,
  one unit in the last place under the cost.
\<close>

lemma split_sum_one_ulp_under:
  "create_session ex_db
     \<lparr> sc_session_type = ''therapist'', sc_scheduled_date = None,
       sc_duration_minutes = 90, sc_cost = Fin 0, sc_therapist_id = Some ''t-4'' \<rparr>
     (UserResponse_of ex_alice) ex_session_env =
     (Inr \<lparr> s_session_type = ''therapist'', s_scheduled_date = None,
            s_duration_minutes = 90, s_cost = Fin 6, s_id = ''s-new'',
            s_user_id = ''u-alice'', s_therapist_id = Some ''t-4'',
            s_status = ''scheduled'', s_created_at = 2000 \<rparr>,
      ex_db\<lparr> sessions := sessions ex_db @
                [\<lparr> s_session_type = ''therapist'', s_scheduled_date = None,
                   s_duration_minutes = 90, s_cost = Fin 6, s_id = ''s-new'',
                   s_user_id = ''u-alice'', s_therapist_id = Some ''t-4'',
                   s_status = ''scheduled'', s_created_at = 2000 \<rparr>],
             payments := payments ex_db @
                [\<lparr> p_id = ''p-new'', p_user_id = ''u-alice'', p_session_id = ''s-new'',
                   p_amount = Fin 6, p_payment_type = ''therapist_session'',
                   p_status = ''completed'',
                   p_platform_fee = Some (Fin (2026619832316723 / 1125899906842624)),
                   p_therapist_earnings = Some (Fin (1182194902184755 / 281474976710656)),
                   p_created_at = 2001 \<rparr>] \<rparr>)
   \<and> fadd (Fin (2026619832316723 / 1125899906842624)) (Fin (1182194902184755 / 281474976710656))
       = Fin (6755399441055743 / 1125899906842624)
   \<and> \<bar>6755399441055743 / 1125899906842624 - 6\<bar> = (1 / 2 ^ 50 :: rat)"
proof -
  have f: "find_one (\<lambda>t. tp_id t = ''t-4'') (therapists ex_db) = Some ex_therapist_4"
    by (simp add: ex_db_def ex_therapist_4_def ex_therapist_80_def)
  have c: "session_cost ex_db \<lparr> sc_session_type = ''therapist'', sc_scheduled_date = None,
       sc_duration_minutes = 90, sc_cost = Fin 0, sc_therapist_id = Some ''t-4'' \<rparr> = Inr (Fin 6)"
    using session_cost_therapist [of "\<lparr> sc_session_type = ''therapist'', sc_scheduled_date = None,
       sc_duration_minutes = 90, sc_cost = Fin 0, sc_therapist_id = Some ''t-4'' \<rparr>" "''t-4''"
       ex_db ex_therapist_4, OF _ _ _ f]
    by (simp add: truediv_90_60 ex_therapist_4_def fmul_4_3half del: fmul.simps)
  have b: "bson_int (sc_duration_minutes \<lparr> sc_session_type = ''therapist'',
       sc_scheduled_date = None, sc_duration_minutes = 90, sc_cost = Fin 0,
       sc_therapist_id = Some ''t-4'' \<rparr>)"
    by (simp add: bson_int_def)
  have d: "bson_datetime (sc_scheduled_date \<lparr> sc_session_type = ''therapist'',
       sc_scheduled_date = None, sc_duration_minutes = 90, sc_cost = Fin 0,
       sc_therapist_id = Some ''t-4'' \<rparr>)"
    by (simp add: bson_datetime_def)
  show ?thesis
    unfolding create_session_Inr [OF c d b]
    by (simp add: float_literal_030 float_literal_070 fmul_6_030 fmul_6_070 fadd_6_split
        UserResponse_of_def ex_alice_def ex_session_env_def del: fmul.simps fadd.simps)
qed

text \<open>
  \<^bold>\<open>C3.\<close> Session creation fails with status 400 when the type is \<^verbatim>\<open>"therapist"\<close> and
  no therapist id is supplied (\<^verbatim>\<open>None\<close>, or the empty string, which Python's \<^verbatim>\<open>not\<close>
  treats alike), with status 404 when the supplied id is that of no therapist
  document, and with status 400 for every type other than \<^verbatim>\<open>"ai"\<close> and
  \<^verbatim>\<open>"therapist"\<close>. Whenever session creation fails, the database is unchanged: no
  session and no payment is written.
\<close>

theorem create_session_failures:
  "(sc_session_type session_data = ''therapist''
      \<and> (sc_therapist_id session_data = None \<or> sc_therapist_id session_data = Some []) \<longrightarrow>
      create_session db session_data current_user env =
        (Inl (HTTPException 400 ''Therapist ID required for therapist sessions''), db))
   \<and> (sc_session_type session_data = ''therapist''
        \<and> sc_therapist_id session_data = Some tid \<and> tid \<noteq> []
        \<and> (\<forall>t\<in>set (therapists db). tp_id t \<noteq> tid) \<longrightarrow>
      create_session db session_data current_user env =
        (Inl (HTTPException 404 ''Therapist not found''), db))
   \<and> (sc_session_type session_data \<noteq> ''ai'' \<and> sc_session_type session_data \<noteq> ''therapist'' \<longrightarrow>
      create_session db session_data current_user env =
        (Inl (HTTPException 400 ''Invalid session type''), db))
   \<and> (\<forall>e db'. create_session db session_data current_user env = (Inl e, db') \<longrightarrow> db' = db)"
proof (intro conjI impI allI)
  assume "sc_session_type session_data = ''therapist''
      \<and> (sc_therapist_id session_data = None \<or> sc_therapist_id session_data = Some [])"
  then have "session_cost db session_data =
      Inl (HTTPException 400 ''Therapist ID required for therapist sessions'')"
    by (auto simp: session_cost_def truthy_def)
  then show "create_session db session_data current_user env =
        (Inl (HTTPException 400 ''Therapist ID required for therapist sessions''), db)"
    by (rule create_session_Inl)
next
  assume a: "sc_session_type session_data = ''therapist''
        \<and> sc_therapist_id session_data = Some tid \<and> tid \<noteq> []
        \<and> (\<forall>t\<in>set (therapists db). tp_id t \<noteq> tid)"
  then have "find_one (\<lambda>t. Some (tp_id t) = sc_therapist_id session_data) (therapists db) = None"
    by (simp add: find_one_None_iff)
  with a have "session_cost db session_data = Inl (HTTPException 404 ''Therapist not found'')"
    by (simp add: session_cost_def truthy_def)
  then show "create_session db session_data current_user env =
        (Inl (HTTPException 404 ''Therapist not found''), db)"
    by (rule create_session_Inl)
next
  assume "sc_session_type session_data \<noteq> ''ai'' \<and> sc_session_type session_data \<noteq> ''therapist''"
  then have "session_cost db session_data = Inl (HTTPException 400 ''Invalid session type'')"
    by (simp add: session_cost_def)
  then show "create_session db session_data current_user env =
        (Inl (HTTPException 400 ''Invalid session type''), db)"
    by (rule create_session_Inl)
next
  fix e db'
  assume r: "create_session db session_data current_user env = (Inl e, db')"
  show "db' = db"
  proof (cases "session_cost db session_data")
    case (Inl e')
    from create_session_Inl [OF this] r show ?thesis by simp
  next
    case (Inr cost)
    show ?thesis
    proof (cases "bson_datetime (sc_scheduled_date session_data)
        \<and> bson_int (sc_duration_minutes session_data)")
      case True
      then have "create_session db session_data current_user env \<noteq> (Inl e, db')"
        using create_session_Inr [OF Inr, of current_user env] by simp
      with r show ?thesis by simp
    next
      case False
      from create_session_overflow [OF Inr False] r show ?thesis by simp
    qed
  qed
qed

text \<open>Runs of C3: one request for each of the three failures.\<close>

theorem create_session_failures_witness:
  "create_session ex_db
     \<lparr> sc_session_type = ''therapist'', sc_scheduled_date = None,
       sc_duration_minutes = 60, sc_cost = Fin 0, sc_therapist_id = None \<rparr>
     (UserResponse_of ex_alice) ex_session_env =
     (Inl (HTTPException 400 ''Therapist ID required for therapist sessions''), ex_db)
   \<and> create_session ex_db
     \<lparr> sc_session_type = ''therapist'', sc_scheduled_date = None,
       sc_duration_minutes = 60, sc_cost = Fin 0, sc_therapist_id = Some ''t-none'' \<rparr>
     (UserResponse_of ex_alice) ex_session_env =
     (Inl (HTTPException 404 ''Therapist not found''), ex_db)
   \<and> create_session ex_db
     \<lparr> sc_session_type = ''group'', sc_scheduled_date = None,
       sc_duration_minutes = 60, sc_cost = Fin 0, sc_therapist_id = None \<rparr>
     (UserResponse_of ex_alice) ex_session_env =
     (Inl (HTTPException 400 ''Invalid session type''), ex_db)"
  using
    create_session_failures [where session_data = "\<lparr> sc_session_type = ''therapist'',
       sc_scheduled_date = None, sc_duration_minutes = 60, sc_cost = Fin 0,
       sc_therapist_id = None \<rparr>" and tid = "''x''" and db = ex_db
       and current_user = "UserResponse_of ex_alice" and env = ex_session_env]
    create_session_failures [where session_data = "\<lparr> sc_session_type = ''therapist'',
       sc_scheduled_date = None, sc_duration_minutes = 60, sc_cost = Fin 0,
       sc_therapist_id = Some ''t-none'' \<rparr>" and tid = "''t-none''" and db = ex_db
       and current_user = "UserResponse_of ex_alice" and env = ex_session_env]
    create_session_failures [where session_data = "\<lparr> sc_session_type = ''group'',
       sc_scheduled_date = None, sc_duration_minutes = 60, sc_cost = Fin 0,
       sc_therapist_id = None \<rparr>" and tid = "''x''" and db = ex_db
       and current_user = "UserResponse_of ex_alice" and env = ex_session_env]
  by (simp add: ex_db_def ex_therapist_80_def ex_therapist_4_def ex_therapist_off_def)

text \<open>
  \<^bold>\<open>C4.\<close> When the user document found for the login's email verifies the password,
  login succeeds and issues a token; resolving that token at any instant before its
  expiry (seven days after the login), in the same database or one with more users
  inserted, yields a user with the original id; resolving it at the expiry or later
  fails with status 401 and the detail "Invalid token", whatever the database.
\<close>

theorem token_round_trip:
  assumes "find_one (\<lambda>u. u_email u = ul_email user_login) (users db) = Some user_rec"
    and "verify_password pwd_context (ul_password user_login) (u_password_hash user_rec)"
  shows "\<exists>resp. login db pwd_context user_login now = Inr resp
           \<and> ur_id (user resp) = u_id user_rec
           \<and> (\<forall>now' later. now' < now + 60 * (60 * 24 * 7) \<longrightarrow>
                 (\<exists>u. get_current_user (db\<lparr>users := users db @ later\<rparr>) (access_token resp) now'
                         = Inr u
                    \<and> ur_id u = u_id user_rec))
           \<and> (\<forall>now' db'. now + 60 * (60 * 24 * 7) \<le> now' \<longrightarrow>
                 get_current_user db' (access_token resp) now'
                   = Inl (HTTPException 401 ''Invalid token''))"
proof -
  define resp where "resp =
    \<lparr> access_token = create_access_token [(''sub'', StrV (u_id user_rec))] now,
      token_type = ''bearer'', user = UserResponse_of user_rec \<rparr>"
  have l: "login db pwd_context user_login now = Inr resp"
    using assms by (simp add: login_def resp_def)
  have i: "ur_id (user resp) = u_id user_rec"
    by (simp add: resp_def UserResponse_of_def)
  have t: "access_token resp = create_access_token [(''sub'', StrV (u_id user_rec))] now"
    by (simp add: resp_def)
  have m: "user_rec \<in> set (users db)" using find_one_SomeD [OF assms(1)] by simp
  have a: "\<exists>u. get_current_user (db\<lparr>users := users db @ later\<rparr>) (access_token resp) now' = Inr u
               \<and> ur_id u = u_id user_rec"
    if "now' < now + 60 * (60 * 24 * 7)" for now' later
    unfolding t using that m
    by (intro get_current_user_fresh_token) auto
  have b: "get_current_user db' (access_token resp) now' = Inl (HTTPException 401 ''Invalid token'')"
    if "now + 60 * (60 * 24 * 7) \<le> now'" for now' db'
    unfolding t using that by (intro get_current_user_expired_token) simp
  from l i a b show ?thesis by blast
qed

text \<open>A run of C4: Alice logs in at \<open>5000\<close>; her token is good at \<open>609799\<close> and dead at \<open>609800\<close>.\<close>

theorem token_round_trip_witness:
  "login ex_db ex_pwd_context \<lparr> ul_email = ''alice@example.com'', ul_password = ''wonderland'' \<rparr> 5000
     = Inr \<lparr> access_token =
               Signed ''thrapy_secret_key_2024'' ''HS256''
                 [(''sub'', StrV ''u-alice''), (''exp'', NumV 609800)],
             token_type = ''bearer'', user = UserResponse_of ex_alice \<rparr>
   \<and> get_current_user ex_db
        (Signed ''thrapy_secret_key_2024'' ''HS256''
           [(''sub'', StrV ''u-alice''), (''exp'', NumV 609800)]) 609799
     = Inr (UserResponse_of ex_alice)
   \<and> get_current_user ex_db
        (Signed ''thrapy_secret_key_2024'' ''HS256''
           [(''sub'', StrV ''u-alice''), (''exp'', NumV 609800)]) 609800
     = Inl (HTTPException 401 ''Invalid token'')"
proof -
  have f: "find_one (\<lambda>u. u_email u = ul_email \<lparr> ul_email = ''alice@example.com'',
              ul_password = ''wonderland'' \<rparr>) (users ex_db) = Some ex_alice"
    by (simp add: ex_db_def ex_alice_def)
  have v: "verify_password ex_pwd_context
             (ul_password \<lparr> ul_email = ''alice@example.com'', ul_password = ''wonderland'' \<rparr>)
             (u_password_hash ex_alice)"
    by (simp add: verify_password_def ex_pwd_context_def ex_alice_def)
  have l: "login ex_db ex_pwd_context
             \<lparr> ul_email = ''alice@example.com'', ul_password = ''wonderland'' \<rparr> 5000
     = Inr \<lparr> access_token =
               Signed ''thrapy_secret_key_2024'' ''HS256''
                 [(''sub'', StrV ''u-alice''), (''exp'', NumV 609800)],
             token_type = ''bearer'', user = UserResponse_of ex_alice \<rparr>"
    using f v
    by (simp add: login_def create_access_token_def jwt_encode_def JWT_SECRET_def
        JWT_ALGORITHM_def JWT_EXPIRATION_TIME_MINUTES_def Let_def ex_alice_def)
  have g: "get_current_user ex_db
        (Signed ''thrapy_secret_key_2024'' ''HS256''
           [(''sub'', StrV ''u-alice''), (''exp'', NumV 609800)]) 609799
     = Inr (UserResponse_of ex_alice)"
    by (simp add: get_current_user_def jwt_decode_def JWT_SECRET_def JWT_ALGORITHM_def
        dict_get_def ex_db_def ex_alice_def)
  from token_round_trip [OF f v, of 5000] l g
  show ?thesis by (auto simp: ex_db_def)
qed

text \<open>
  \<^bold>\<open>C5.\<close> \<^verbatim>\<open>/ai-chat\<close> answers alike, status 404 "AI session not found" and the
  database unchanged, in three situations: no session has the id; the sessions with
  the id belong to other users; the caller's sessions with the id are not AI
  sessions. The provider is not called in any of them.
\<close>

theorem ai_chat_not_found_uniform:
  assumes "cm_session_id m1 = sid" and "cm_session_id m2 = sid" and "cm_session_id m3 = sid"
    and "\<forall>s\<in>set (sessions db1). s_id s \<noteq> sid"
    and "\<forall>s\<in>set (sessions db2). s_id s = sid \<longrightarrow> s_user_id s \<noteq> ur_id current_user"
    and "\<forall>s\<in>set (sessions db3). s_id s = sid \<and> s_user_id s = ur_id current_user
            \<longrightarrow> s_session_type s \<noteq> ''ai''"
  shows "ai_chat db1 m1 current_user env1 = (Inl (HTTPException 404 ''AI session not found''), db1)
       \<and> ai_chat db2 m2 current_user env2 = (Inl (HTTPException 404 ''AI session not found''), db2)
       \<and> ai_chat db3 m3 current_user env3 = (Inl (HTTPException 404 ''AI session not found''), db3)"
proof -
  let ?P = "\<lambda>s. s_id s = sid \<and> s_user_id s = ur_id current_user \<and> s_session_type s = ''ai''"
  have "find_one ?P (sessions db1) = None" "find_one ?P (sessions db2) = None"
       "find_one ?P (sessions db3) = None"
    using assms(4-6) by (auto simp: find_one_None_iff)
  then show ?thesis using assms(1-3) by (simp add: ai_chat_def)
qed

text \<open>
  Runs of C5 for the id of Bob's AI session, asked for by Alice: in a database
  without it, in the database with it, and in one where the id is that of Alice's
  therapist session.
\<close>

theorem ai_chat_not_found_uniform_witness:
  "ai_chat (ex_db\<lparr>sessions := [ex_session_alice_ai]\<rparr>)
       \<lparr> cm_session_id = ''s-3'', cm_message = ''hello'' \<rparr>
       (UserResponse_of ex_alice) ex_chat_env
     = (Inl (HTTPException 404 ''AI session not found''), ex_db\<lparr>sessions := [ex_session_alice_ai]\<rparr>)
   \<and> ai_chat ex_db \<lparr> cm_session_id = ''s-3'', cm_message = ''hello'' \<rparr>
       (UserResponse_of ex_alice) ex_chat_env
     = (Inl (HTTPException 404 ''AI session not found''), ex_db)
   \<and> ai_chat (ex_db\<lparr>sessions := [ex_session_alice_therapist\<lparr>s_id := ''s-3''\<rparr>]\<rparr>)
       \<lparr> cm_session_id = ''s-3'', cm_message = ''hello'' \<rparr>
       (UserResponse_of ex_alice) ex_chat_env
     = (Inl (HTTPException 404 ''AI session not found''),
        ex_db\<lparr>sessions := [ex_session_alice_therapist\<lparr>s_id := ''s-3''\<rparr>]\<rparr>)
   \<and> ex_session_bob_ai \<in> set (sessions ex_db) \<and> s_id ex_session_bob_ai = ''s-3''"
proof -
  let ?m = "\<lparr> cm_session_id = ''s-3'', cm_message = ''hello'' \<rparr>"
  have m: "cm_session_id ?m = ''s-3''" by simp
  have 1: "\<forall>s\<in>set (sessions (ex_db\<lparr>sessions := [ex_session_alice_ai]\<rparr>)). s_id s \<noteq> ''s-3''"
    by (simp add: ex_session_alice_ai_def)
  have 2: "\<forall>s\<in>set (sessions ex_db). s_id s = ''s-3''
             \<longrightarrow> s_user_id s \<noteq> ur_id (UserResponse_of ex_alice)"
    by (simp add: ex_db_def UserResponse_of_def ex_alice_def ex_session_alice_ai_def
        ex_session_alice_therapist_def ex_session_bob_ai_def)
  have 3: "\<forall>s\<in>set (sessions (ex_db\<lparr>sessions := [ex_session_alice_therapist\<lparr>s_id := ''s-3''\<rparr>]\<rparr>)).
             s_id s = ''s-3'' \<and> s_user_id s = ur_id (UserResponse_of ex_alice)
             \<longrightarrow> s_session_type s \<noteq> ''ai''"
    by (simp add: ex_session_alice_therapist_def)
  have 4: "ex_session_bob_ai \<in> set (sessions ex_db) \<and> s_id ex_session_bob_ai = ''s-3''"
    by (simp add: ex_db_def ex_session_bob_ai_def)
  from ai_chat_not_found_uniform [OF m m m 1 2 3, of ex_chat_env ex_chat_env ex_chat_env] 4
  show ?thesis by blast
qed

text \<open>
  \<^bold>\<open>C6.\<close> Registering with an email some user document already has fails with status
  400, "Email already registered", whatever the name, password and role of the
  request, and leaves the database unchanged.
\<close>

theorem register_existing_email:
  assumes "\<exists>u\<in>set (users db). u_email u = uc_email user_in"
  shows "register db pwd_context user_in env =
           (Inl (HTTPException 400 ''Email already registered''), db)"
proof -
  from assms obtain y where "find_one (\<lambda>u. u_email u = uc_email user_in) (users db) = Some y"
    using find_one_Some_ex [of "users db" "\<lambda>u. u_email u = uc_email user_in"] by blast
  then show ?thesis by (simp add: register_def)
qed

text \<open>A run of C6: Alice's email again, under another name, role and password.\<close>

theorem register_existing_email_witness:
  "register ex_db ex_pwd_context
     \<lparr> uc_email = ''alice@example.com'', uc_full_name = ''Mallory'', uc_role = ''admin'',
       uc_password = ''other'' \<rparr>
     \<lparr> reg_uuid = ''u-new'', reg_salt = ''salt'', reg_now = 3000 \<rparr>
     = (Inl (HTTPException 400 ''Email already registered''), ex_db)"
  using register_existing_email [of ex_db "\<lparr> uc_email = ''alice@example.com'',
      uc_full_name = ''Mallory'', uc_role = ''admin'', uc_password = ''other'' \<rparr>"
      ex_pwd_context "\<lparr> reg_uuid = ''u-new'', reg_salt = ''salt'', reg_now = 3000 \<rparr>"]
  by (simp add: ex_db_def ex_alice_def)

text \<open>
  \<^bold>\<open>C7.\<close> Therapist registration fails with status 403 for every caller whose role is
  not \<^verbatim>\<open>"therapist"\<close> (this check comes first), and with status 400 for a therapist
  whose user id already has a profile; both leave the database unchanged. Only when
  both checks pass is a profile inserted, with \<^verbatim>\<open>is_available\<close> true; it is inserted
  when \<^verbatim>\<open>years_experience\<close> is an int the database can hold, and otherwise the insert
  raises \<^verbatim>\<open>OverflowError\<close> and the database is unchanged.
\<close>

theorem register_therapist_guard:
  "(ur_role current_user \<noteq> ''therapist'' \<longrightarrow>
      register_therapist db therapist_data current_user env =
        (Inl (HTTPException 403 ''Only therapists can register as therapists''), db))
   \<and> (ur_role current_user = ''therapist''
        \<and> (\<exists>t\<in>set (therapists db). tp_user_id t = ur_id current_user) \<longrightarrow>
      register_therapist db therapist_data current_user env =
        (Inl (HTTPException 400 ''Therapist profile already exists''), db))
   \<and> (ur_role current_user = ''therapist''
        \<and> \<not> (\<exists>t\<in>set (therapists db). tp_user_id t = ur_id current_user)
        \<and> bson_int (tr_years_experience therapist_data) \<longrightarrow>
      (\<exists>p. register_therapist db therapist_data current_user env =
              (Inr p, db\<lparr>therapists := therapists db @ [p]\<rparr>)
           \<and> tp_is_available p = True
           \<and> tp_user_id p = ur_id current_user
           \<and> tp_hourly_rate p = tr_hourly_rate therapist_data))
   \<and> (ur_role current_user = ''therapist''
        \<and> \<not> (\<exists>t\<in>set (therapists db). tp_user_id t = ur_id current_user)
        \<and> \<not> bson_int (tr_years_experience therapist_data) \<longrightarrow>
      register_therapist db therapist_data current_user env = (Inl OverflowError, db))
   \<and> (\<forall>p db'. register_therapist db therapist_data current_user env = (Inr p, db') \<longrightarrow>
         ur_role current_user = ''therapist''
         \<and> \<not> (\<exists>t\<in>set (therapists db). tp_user_id t = ur_id current_user)
         \<and> db' = db\<lparr>therapists := therapists db @ [p]\<rparr>
         \<and> tp_is_available p = True)"
proof (intro conjI impI allI)
  assume "ur_role current_user \<noteq> ''therapist''"
  then show "register_therapist db therapist_data current_user env =
        (Inl (HTTPException 403 ''Only therapists can register as therapists''), db)"
    by (simp add: register_therapist_def)
next
  assume a: "ur_role current_user = ''therapist''
        \<and> (\<exists>t\<in>set (therapists db). tp_user_id t = ur_id current_user)"
  then obtain y where "find_one (\<lambda>t. tp_user_id t = ur_id current_user) (therapists db) = Some y"
    using find_one_Some_ex [of "therapists db" "\<lambda>t. tp_user_id t = ur_id current_user"] by blast
  with a show "register_therapist db therapist_data current_user env =
        (Inl (HTTPException 400 ''Therapist profile already exists''), db)"
    by (simp add: register_therapist_def)
next
  assume a: "ur_role current_user = ''therapist''
        \<and> \<not> (\<exists>t\<in>set (therapists db). tp_user_id t = ur_id current_user)
        \<and> bson_int (tr_years_experience therapist_data)"
  then have "find_one (\<lambda>t. tp_user_id t = ur_id current_user) (therapists db) = None"
    by (simp add: find_one_None_iff)
  with a show "\<exists>p. register_therapist db therapist_data current_user env =
              (Inr p, db\<lparr>therapists := therapists db @ [p]\<rparr>)
           \<and> tp_is_available p = True
           \<and> tp_user_id p = ur_id current_user
           \<and> tp_hourly_rate p = tr_hourly_rate therapist_data"
    by (simp add: register_therapist_def therapists_insert_one_def Let_def)
next
  assume a: "ur_role current_user = ''therapist''
        \<and> \<not> (\<exists>t\<in>set (therapists db). tp_user_id t = ur_id current_user)
        \<and> \<not> bson_int (tr_years_experience therapist_data)"
  then have "find_one (\<lambda>t. tp_user_id t = ur_id current_user) (therapists db) = None"
    by (simp add: find_one_None_iff)
  with a show "register_therapist db therapist_data current_user env = (Inl OverflowError, db)"
    by (simp add: register_therapist_def therapists_insert_one_def Let_def)
next
  fix p db'
  assume r: "register_therapist db therapist_data current_user env = (Inr p, db')"
  show "ur_role current_user = ''therapist''"
    using r by (auto simp: register_therapist_def split: if_splits)
  show "\<not> (\<exists>t\<in>set (therapists db). tp_user_id t = ur_id current_user)"
    using r find_one_None_iff [of "\<lambda>t. tp_user_id t = ur_id current_user" "therapists db"]
    by (auto simp: register_therapist_def Let_def split: if_splits option.splits)
  show "db' = db\<lparr>therapists := therapists db @ [p]\<rparr>"
    using r
    by (auto simp: register_therapist_def therapists_insert_one_def Let_def
        split: if_splits option.splits)
  show "tp_is_available p = True"
    using r
    by (auto simp: register_therapist_def therapists_insert_one_def Let_def
        split: if_splits option.splits)
qed

text \<open>Runs of C7: a client, a therapist with a profile, a therapist without one.\<close>

theorem register_therapist_guard_witness:
  "register_therapist ex_db
     \<lparr> tr_license_number = ''L9'', tr_specialization = ''CBT'', tr_hourly_rate = Fin 60,
       tr_bio = ''bio'', tr_years_experience = 2 \<rparr>
     (UserResponse_of ex_alice) \<lparr> th_uuid = ''t-new'', th_now = 3000 \<rparr>
     = (Inl (HTTPException 403 ''Only therapists can register as therapists''), ex_db)
   \<and> register_therapist ex_db
     \<lparr> tr_license_number = ''L9'', tr_specialization = ''CBT'', tr_hourly_rate = Fin 60,
       tr_bio = ''bio'', tr_years_experience = 2 \<rparr>
     (UserResponse_of ex_bob) \<lparr> th_uuid = ''t-new'', th_now = 3000 \<rparr>
     = (Inl (HTTPException 400 ''Therapist profile already exists''), ex_db)
   \<and> (\<exists>p. register_therapist (ex_db\<lparr>therapists := []\<rparr>)
     \<lparr> tr_license_number = ''L9'', tr_specialization = ''CBT'', tr_hourly_rate = Fin 60,
       tr_bio = ''bio'', tr_years_experience = 2 \<rparr>
     (UserResponse_of ex_bob) \<lparr> th_uuid = ''t-new'', th_now = 3000 \<rparr>
     = (Inr p, ex_db\<lparr>therapists := [p]\<rparr>) \<and> tp_is_available p = True)"
proof -
  let ?td = "\<lparr> tr_license_number = ''L9'', tr_specialization = ''CBT'', tr_hourly_rate = Fin 60,
       tr_bio = ''bio'', tr_years_experience = 2 \<rparr>"
  let ?env = "\<lparr> th_uuid = ''t-new'', th_now = 3000 \<rparr>"
  have a: "ur_role (UserResponse_of ex_alice) \<noteq> ''therapist''"
    by (simp add: UserResponse_of_def ex_alice_def)
  have b: "ur_role (UserResponse_of ex_bob) = ''therapist''"
    by (simp add: UserResponse_of_def ex_bob_def)
  have c: "\<exists>t\<in>set (therapists ex_db). tp_user_id t = ur_id (UserResponse_of ex_bob)"
    by (simp add: ex_db_def UserResponse_of_def ex_bob_def ex_therapist_80_def)
  have d: "\<not> (\<exists>t\<in>set (therapists (ex_db\<lparr>therapists := []\<rparr>)).
             tp_user_id t = ur_id (UserResponse_of ex_bob))"
    by simp
  have e: "(ex_db\<lparr>therapists := []\<rparr>)\<lparr>therapists := therapists (ex_db\<lparr>therapists := []\<rparr>) @ [p]\<rparr>
             = ex_db\<lparr>therapists := [p]\<rparr>" for p
    by simp
  from register_therapist_guard [of "UserResponse_of ex_alice" ex_db ?td ?env] a
  have 1: "register_therapist ex_db ?td (UserResponse_of ex_alice) ?env
     = (Inl (HTTPException 403 ''Only therapists can register as therapists''), ex_db)"
    by blast
  from register_therapist_guard [of "UserResponse_of ex_bob" ex_db ?td ?env] b c
  have 2: "register_therapist ex_db ?td (UserResponse_of ex_bob) ?env
     = (Inl (HTTPException 400 ''Therapist profile already exists''), ex_db)"
    by blast
  have i: "bson_int (tr_years_experience ?td)" by (simp add: bson_int_def)
  from register_therapist_guard [of "UserResponse_of ex_bob" "ex_db\<lparr>therapists := []\<rparr>" ?td ?env]
    b d i
  have 3: "\<exists>p. register_therapist (ex_db\<lparr>therapists := []\<rparr>) ?td (UserResponse_of ex_bob) ?env
     = (Inr p, ex_db\<lparr>therapists := [p]\<rparr>) \<and> tp_is_available p = True"
    unfolding e by blast
  from 1 2 3 show ?thesis by blast
qed

text \<open>
  \<^bold>\<open>C8.\<close> The listing returns therapist documents that are available only, no
  unavailable one, and at most 100 of them.
\<close>

theorem get_therapists_available:
  "(\<forall>t\<in>set (get_therapists db). t \<in> set (therapists db) \<and> tp_is_available t = True)
   \<and> (\<forall>t\<in>set (therapists db). tp_is_available t = False \<longrightarrow> t \<notin> set (get_therapists db))
   \<and> length (get_therapists db) \<le> 100"
proof -
  have "set (get_therapists db) \<subseteq> set (filter (\<lambda>t. tp_is_available t = True) (therapists db))"
    unfolding get_therapists_def find_to_list_def by (rule set_take_subset)
  then show ?thesis
    by (auto simp: get_therapists_def find_to_list_def)
qed

text \<open>A run of C8: of the three profiles the two available ones are listed.\<close>

theorem get_therapists_available_witness:
  "get_therapists ex_db = [ex_therapist_80, ex_therapist_4]
   \<and> tp_is_available ex_therapist_off = False
   \<and> ex_therapist_off \<in> set (therapists ex_db)
   \<and> ex_therapist_off \<notin> set (get_therapists ex_db)
   \<and> length (get_therapists ex_db) \<le> 100"
proof -
  have 1: "get_therapists ex_db = [ex_therapist_80, ex_therapist_4]"
    by (simp add: get_therapists_def find_to_list_def ex_db_def ex_therapist_80_def
        ex_therapist_4_def ex_therapist_off_def)
  have 2: "tp_is_available ex_therapist_off = False" by (simp add: ex_therapist_off_def)
  have 3: "ex_therapist_off \<in> set (therapists ex_db)" by (simp add: ex_db_def)
  from get_therapists_available [of ex_db] 2 3
  have 4: "ex_therapist_off \<notin> set (get_therapists ex_db)"
    and 5: "length (get_therapists ex_db) \<le> 100" by blast+
  from 1 2 3 4 5 show ?thesis by blast
qed

text \<open>
  \<^bold>\<open>C9, as amended.\<close> Every session that session creation stores carries the request's
  \<^verbatim>\<open>duration_minutes\<close> unchanged, an int of at most 8 bytes
  (\<open>- 2 ^ 63 \<le> d < 2 ^ 63\<close>). The sign of the duration is not checked: whenever a request
  is accepted, the same request with any other duration of at most 8 bytes, zero or
  negative, is accepted too and stored with that duration; and the request model
  passes every integer on (\<open>60\<close> when the key is absent).
\<close>

theorem create_session_keeps_duration:
  "(\<forall>s db'. create_session db session_data current_user env = (Inr s, db') \<longrightarrow>
       s_duration_minutes s = sc_duration_minutes session_data
       \<and> sessions db' = sessions db @ [s]
       \<and> bson_int (sc_duration_minutes session_data))
   \<and> (\<forall>s db' d'. create_session db session_data current_user env = (Inr s, db')
         \<and> bson_int d' \<longrightarrow>
       (\<exists>s' db''. create_session db (session_data\<lparr>sc_duration_minutes := d'\<rparr>) current_user env
                    = (Inr s', db'')
                \<and> s_duration_minutes s' = d'))
   \<and> validate_SessionCreate (body\<lparr> b_session_type := Some st, b_cost := Some c,
                                    b_duration_minutes := Some d \<rparr>) =
       Inr \<lparr> sc_session_type = st, sc_scheduled_date = b_scheduled_date body,
             sc_duration_minutes = d, sc_cost = c, sc_therapist_id = b_therapist_id body \<rparr>
   \<and> validate_SessionCreate (body\<lparr> b_session_type := Some st, b_cost := Some c,
                                    b_duration_minutes := None \<rparr>) =
       Inr \<lparr> sc_session_type = st, sc_scheduled_date = b_scheduled_date body,
             sc_duration_minutes = 60, sc_cost = c, sc_therapist_id = b_therapist_id body \<rparr>"
proof (intro conjI impI allI)
  fix s db'
  assume r: "create_session db session_data current_user env = (Inr s, db')"
  from create_session_accepted [OF r]
  show "s_duration_minutes s = sc_duration_minutes session_data" by blast
  from create_session_accepted [OF r]
  show "sessions db' = sessions db @ [s]" by auto
  show "bson_int (sc_duration_minutes session_data)"
    using create_session_Inr_D(3) [OF r] .
next
  fix s db' d'
  assume a: "create_session db session_data current_user env = (Inr s, db') \<and> bson_int d'"
  then have r: "create_session db session_data current_user env = (Inr s, db')"
    and b: "bson_int d'" by simp_all
  from create_session_Inr_D [OF r] obtain cost where
    c: "session_cost db session_data = Inr cost"
    and dt: "bson_datetime (sc_scheduled_date session_data)" by blast
  from session_cost_duration [OF c b] obtain cost' where
    c': "session_cost db (session_data\<lparr>sc_duration_minutes := d'\<rparr>) = Inr cost'" ..
  from create_session_accepts [OF c', of current_user env] dt b
  show "\<exists>s' db''. create_session db (session_data\<lparr>sc_duration_minutes := d'\<rparr>) current_user env
                    = (Inr s', db'')
                \<and> s_duration_minutes s' = d'"
    by auto
qed (simp_all add: validate_SessionCreate_def)

text \<open>
  A run of the amended C9: thirty minutes are accepted and stored as thirty, and
  hence zero minutes are accepted and stored as zero.
\<close>

theorem create_session_keeps_duration_witness:
  "(\<exists>s db'. create_session ex_db
              \<lparr> sc_session_type = ''ai'', sc_scheduled_date = None,
                sc_duration_minutes = 30, sc_cost = Fin 0, sc_therapist_id = None \<rparr>
              (UserResponse_of ex_alice) ex_session_env = (Inr s, db')
          \<and> s_duration_minutes s = 30 \<and> sessions db' = sessions ex_db @ [s])
   \<and> bson_int 0
   \<and> (\<exists>s' db''. create_session ex_db
              \<lparr> sc_session_type = ''ai'', sc_scheduled_date = None,
                sc_duration_minutes = 0, sc_cost = Fin 0, sc_therapist_id = None \<rparr>
              (UserResponse_of ex_alice) ex_session_env = (Inr s', db'')
          \<and> s_duration_minutes s' = 0)"
proof -
  let ?sd = "\<lparr> sc_session_type = ''ai'', sc_scheduled_date = None,
                sc_duration_minutes = 30, sc_cost = Fin 0, sc_therapist_id = None \<rparr>"
  have c: "session_cost ex_db ?sd = Inr (Fin (5 / 2))"
    by (simp add: session_cost_ai truediv_30_60 float_literal_5 fmul_5_half del: fmul.simps)
  have d: "bson_datetime (sc_scheduled_date ?sd)" by (simp add: bson_datetime_def)
  have b: "bson_int (sc_duration_minutes ?sd)" by (simp add: bson_int_def)
  have z: "bson_int 0" by (simp add: bson_int_def)
  from create_session_accepts [OF c d b, of "UserResponse_of ex_alice" ex_session_env]
  obtain s0 db0 where r: "create_session ex_db ?sd (UserResponse_of ex_alice) ex_session_env
      = (Inr s0, db0)" by blast
  note k = create_session_keeps_duration [of ex_db ?sd "UserResponse_of ex_alice" ex_session_env]
  from k r have 1: "s_duration_minutes s0 = 30 \<and> sessions db0 = sessions ex_db @ [s0]"
    by simp
  from k r z have 2: "\<exists>s' db''. create_session ex_db (?sd\<lparr>sc_duration_minutes := 0\<rparr>)
      (UserResponse_of ex_alice) ex_session_env = (Inr s', db'') \<and> s_duration_minutes s' = 0"
    by blast
  have u: "?sd\<lparr>sc_duration_minutes := 0\<rparr> = \<lparr> sc_session_type = ''ai'', sc_scheduled_date = None,
                sc_duration_minutes = 0, sc_cost = Fin 0, sc_therapist_id = None \<rparr>"
    by simp
  from r 1 2 [unfolded u] z show ?thesis by blast
qed

text \<open>
  \<^bold>\<open>C9 as stated fails.\<close> An AI request of zero minutes is accepted and stored with
  duration \<open>0\<close> and cost \<open>0.0\<close>; one of \<open>- 30\<close> minutes is accepted and stored with
  duration \<open>- 30\<close> and cost \<open>- 2.5\<close>.
\<close>

theorem nonpositive_duration_accepted:
  "create_session ex_db
     \<lparr> sc_session_type = ''ai'', sc_scheduled_date = None,
       sc_duration_minutes = 0, sc_cost = Fin 0, sc_therapist_id = None \<rparr>
     (UserResponse_of ex_alice) ex_session_env =
     (Inr \<lparr> s_session_type = ''ai'', s_scheduled_date = None,
            s_duration_minutes = 0, s_cost = Fin 0, s_id = ''s-new'',
            s_user_id = ''u-alice'', s_therapist_id = None,
            s_status = ''scheduled'', s_created_at = 2000 \<rparr>,
      ex_db\<lparr> sessions := sessions ex_db @
                [\<lparr> s_session_type = ''ai'', s_scheduled_date = None,
                   s_duration_minutes = 0, s_cost = Fin 0, s_id = ''s-new'',
                   s_user_id = ''u-alice'', s_therapist_id = None,
                   s_status = ''scheduled'', s_created_at = 2000 \<rparr>],
             payments := payments ex_db @
                [\<lparr> p_id = ''p-new'', p_user_id = ''u-alice'', p_session_id = ''s-new'',
                   p_amount = Fin 0, p_payment_type = ''ai_session'',
                   p_status = ''completed'', p_platform_fee = None,
                   p_therapist_earnings = None, p_created_at = 2001 \<rparr>] \<rparr>)
   \<and> create_session ex_db
     \<lparr> sc_session_type = ''ai'', sc_scheduled_date = None,
       sc_duration_minutes = - 30, sc_cost = Fin 0, sc_therapist_id = None \<rparr>
     (UserResponse_of ex_alice) ex_session_env =
     (Inr \<lparr> s_session_type = ''ai'', s_scheduled_date = None,
            s_duration_minutes = - 30, s_cost = Fin (- (5 / 2)), s_id = ''s-new'',
            s_user_id = ''u-alice'', s_therapist_id = None,
            s_status = ''scheduled'', s_created_at = 2000 \<rparr>,
      ex_db\<lparr> sessions := sessions ex_db @
                [\<lparr> s_session_type = ''ai'', s_scheduled_date = None,
                   s_duration_minutes = - 30, s_cost = Fin (- (5 / 2)), s_id = ''s-new'',
                   s_user_id = ''u-alice'', s_therapist_id = None,
                   s_status = ''scheduled'', s_created_at = 2000 \<rparr>],
             payments := payments ex_db @
                [\<lparr> p_id = ''p-new'', p_user_id = ''u-alice'', p_session_id = ''s-new'',
                   p_amount = Fin (- (5 / 2)), p_payment_type = ''ai_session'',
                   p_status = ''completed'', p_platform_fee = None,
                   p_therapist_earnings = None, p_created_at = 2001 \<rparr>] \<rparr>)"
proof -
  have c0: "session_cost ex_db \<lparr> sc_session_type = ''ai'', sc_scheduled_date = None,
       sc_duration_minutes = 0, sc_cost = Fin 0, sc_therapist_id = None \<rparr> = Inr (Fin 0)"
    by (simp add: session_cost_ai truediv_0_60 float_literal_5 fmul_5_0 del: fmul.simps)
  have c1: "session_cost ex_db \<lparr> sc_session_type = ''ai'', sc_scheduled_date = None,
       sc_duration_minutes = - 30, sc_cost = Fin 0, sc_therapist_id = None \<rparr> = Inr (Fin (- (5 / 2)))"
    by (simp add: session_cost_ai truediv_m30_60 float_literal_5 fmul_5_mhalf del: fmul.simps)
  have b0: "bson_int (sc_duration_minutes \<lparr> sc_session_type = ''ai'', sc_scheduled_date = None,
       sc_duration_minutes = 0, sc_cost = Fin 0, sc_therapist_id = None \<rparr>)"
    by (simp add: bson_int_def)
  have b1: "bson_int (sc_duration_minutes \<lparr> sc_session_type = ''ai'', sc_scheduled_date = None,
       sc_duration_minutes = - 30, sc_cost = Fin 0, sc_therapist_id = None \<rparr>)"
    by (simp add: bson_int_def)
  have d0: "bson_datetime (sc_scheduled_date \<lparr> sc_session_type = ''ai'',
       sc_scheduled_date = None, sc_duration_minutes = 0, sc_cost = Fin 0,
       sc_therapist_id = None \<rparr>)"
    by (simp add: bson_datetime_def)
  have d1: "bson_datetime (sc_scheduled_date \<lparr> sc_session_type = ''ai'',
       sc_scheduled_date = None, sc_duration_minutes = - 30, sc_cost = Fin 0,
       sc_therapist_id = None \<rparr>)"
    by (simp add: bson_datetime_def)
  show ?thesis
    unfolding create_session_Inr [OF c0 d0 b0] create_session_Inr [OF c1 d1 b1]
    by (simp add: UserResponse_of_def ex_alice_def ex_session_env_def)
qed

text \<open>
  \<^bold>\<open>C10.\<close> The cost a client supplies has no effect: two requests that differ in the
  cost field only give the same response and the same database, at the handler and
  at the route; yet a body without the cost key is refused by the request model.
\<close>

theorem create_session_cost_ignored:
  "create_session db (session_data\<lparr>sc_cost := c1\<rparr>) current_user env =
     create_session db (session_data\<lparr>sc_cost := c2\<rparr>) current_user env
   \<and> sessions_create db (body\<lparr>b_cost := Some c1\<rparr>) current_user env =
       sessions_create db (body\<lparr>b_cost := Some c2\<rparr>) current_user env
   \<and> sessions_create db (body\<lparr>b_session_type := Some st, b_cost := None\<rparr>) current_user env =
       (Inl (RequestValidationError ''cost''), db)"
proof -
  have sc: "session_cost db (sd\<lparr>sc_cost := c\<rparr>) = session_cost db sd" for sd c
    by (simp add: session_cost_def split: option.splits)
  have cs: "create_session db (sd\<lparr>sc_cost := c\<rparr>) current_user env =
              create_session db sd current_user env" for sd c
  proof (cases "session_cost db sd")
    case (Inl e)
    then have "session_cost db (sd\<lparr>sc_cost := c\<rparr>) = Inl e" by (simp add: sc)
    from create_session_Inl [OF this] create_session_Inl [OF Inl] show ?thesis by simp
  next
    case (Inr cost)
    then have i: "session_cost db (sd\<lparr>sc_cost := c\<rparr>) = Inr cost" by (simp add: sc)
    show ?thesis
    proof (cases "bson_datetime (sc_scheduled_date sd) \<and> bson_int (sc_duration_minutes sd)")
      case True
      then have "create_session db (sd\<lparr>sc_cost := c\<rparr>) current_user env =
          create_session db sd current_user env"
        using create_session_Inr [OF i, of current_user env]
          create_session_Inr [OF Inr, of current_user env] by simp
      then show ?thesis .
    next
      case False
      then have "\<not> (bson_datetime (sc_scheduled_date (sd\<lparr>sc_cost := c\<rparr>))
          \<and> bson_int (sc_duration_minutes (sd\<lparr>sc_cost := c\<rparr>)))" by simp
      from create_session_overflow [OF i this] create_session_overflow [OF Inr False]
      show ?thesis by simp
    qed
  qed
  have v: "validate_SessionCreate (body\<lparr>b_cost := Some c\<rparr>) =
             (case b_session_type body of
                None \<Rightarrow> Inl (RequestValidationError ''session_type'')
              | Some st \<Rightarrow>
                  Inr (\<lparr> sc_session_type = st, sc_scheduled_date = b_scheduled_date body,
                         sc_duration_minutes =
                           (case b_duration_minutes body of None \<Rightarrow> 60 | Some d \<Rightarrow> d),
                         sc_cost = NaN, sc_therapist_id = b_therapist_id body \<rparr>
                       \<lparr>sc_cost := c\<rparr>))" for c
    by (simp add: validate_SessionCreate_def split: option.splits)
  have "sessions_create db (body\<lparr>b_cost := Some c1\<rparr>) current_user env =
          sessions_create db (body\<lparr>b_cost := Some c2\<rparr>) current_user env"
    unfolding sessions_create_def v by (cases "b_session_type body") (simp_all only: option.case sum.case cs)
  moreover have "sessions_create db (body\<lparr>b_session_type := Some st, b_cost := None\<rparr>) current_user env =
       (Inl (RequestValidationError ''cost''), db)"
    by (simp add: sessions_create_def validate_SessionCreate_def)
  ultimately show ?thesis using cs [of c1 session_data] cs [of c2 session_data] by simp
qed

end
